theory Spec2Isabelle
  imports Main "HOL-Library.Word" "HOL-Library.Signed_Division"
begin

section \<open>Common types\<close>

text \<open>
  \<^verbatim>\<open>frame_id_t\<close> and \<^verbatim>\<open>page_id_t\<close> are C++ \<^verbatim>\<open>int\<close>s, as are the pin count and the
  counters of the replacer. They are modelled as unbounded integers: the two classes
  change them by one at a time, and no statement below is about a run of two thousand
  million calls. For the same reason the conversions of the \<^verbatim>\<open>size_t\<close> pool size to
  \<^verbatim>\<open>int\<close> (the replacer's capacity, the frame ids of the free list) are the identity.
\<close>

type_synonym frame_id_t = int
type_synonym page_id_t = int
type_synonym byte = "8 word"

text \<open>
  The operations of the source that the C++ standard leaves undefined are results of
  the model: erasing the end iterator of a container, indexing a vector or the frame
  array out of range, taking the front of an empty list, and \<^verbatim>\<open>%\<close> by zero.
  A call that never returns is the third kind of outcome.
\<close>

datatype undefined_behaviour =
  Erase_end | Index_out_of_range | Front_of_empty | Division_by_zero

datatype 'a outcome = Returns 'a | Undefined undefined_behaviour | Diverges

definition bind :: "'a outcome \<Rightarrow> ('a \<Rightarrow> 'b outcome) \<Rightarrow> 'b outcome" where
  "bind m f = (case m of Returns x \<Rightarrow> f x | Undefined e \<Rightarrow> Undefined e | Diverges \<Rightarrow> Diverges)"

text \<open>\<^verbatim>\<open>v[i]\<close> on a \<^verbatim>\<open>std::vector\<close> (or on the frame array) with an \<^verbatim>\<open>int\<close> index.\<close>

definition vec_at :: "'a list \<Rightarrow> int \<Rightarrow> 'a outcome" where
  "vec_at xs i =
     (if 0 \<le> i \<and> i < int (length xs) then Returns (xs ! nat i)
      else Undefined Index_out_of_range)"

definition vec_set :: "'a list \<Rightarrow> int \<Rightarrow> 'a \<Rightarrow> 'a list outcome" where
  "vec_set xs i v =
     (if 0 \<le> i \<and> i < int (length xs) then Returns (xs[nat i := v])
      else Undefined Index_out_of_range)"

definition INT_MAX :: int where
  "INT_MAX = 2147483647"

section \<open>ClockReplacer (clock\_replacer.h, clock\_replacer.cpp)\<close>

text \<open>
  The private members of the class. The member \<^verbatim>\<open>map\<close> of the source is \<open>slot_map\<close>
  here (\<open>map\<close> is the list functional of HOL); the key is a frame id, the value the
  index of its bucket.
\<close>

record ClockReplacer =
  capacity :: int
  cur_size :: int
  clock_hand :: int
  buckets :: "frame_id_t list"
  ref_bits :: "int list"
  slot_map :: "frame_id_t \<rightharpoonup> int"
  recent_pinned :: "frame_id_t set"

definition ClockReplacer_ctor :: "nat \<Rightarrow> ClockReplacer" where
  "ClockReplacer_ctor num_pages =
     \<lparr> capacity = int num_pages, cur_size = 0, clock_hand = 0,
       buckets = replicate num_pages (- 1), ref_bits = replicate num_pages (- 1),
       slot_map = Map.empty, recent_pinned = {} \<rparr>"

text \<open>
  \<^verbatim>\<open>find_next_available\<close>: the \<^verbatim>\<open>for\<close> loop over \<open>i\<close>, from \<open>i\<close> on.
  Inside the loop \<open>0 \<le> i < capacity\<close>, so \<^verbatim>\<open>%\<close> does not divide by zero.
\<close>

function find_next_available_loop :: "ClockReplacer \<Rightarrow> int \<Rightarrow> int \<Rightarrow> int outcome" where
  "find_next_available_loop r start i =
     (if i < capacity r then
        (let cur_slot = (i + start) smod capacity r in
         case vec_at (buckets r) cur_slot of
           Returns b \<Rightarrow>
             if b = - 1 then Returns cur_slot
             else if b \<in> recent_pinned r then Returns cur_slot
             else find_next_available_loop r start (i + 1)
         | Undefined e \<Rightarrow> Undefined e
         | Diverges \<Rightarrow> Diverges)
      else Returns (- 1))"
  by pat_completeness auto
termination
  by (relation "measure (\<lambda>(r, start, i). nat (capacity r - i))") auto

declare find_next_available_loop.simps [simp del]

definition find_next_available :: "ClockReplacer \<Rightarrow> int \<Rightarrow> int outcome" where
  "find_next_available r start = find_next_available_loop r start 0"

definition Pin :: "ClockReplacer \<Rightarrow> frame_id_t \<Rightarrow> ClockReplacer" where
  "Pin r frame_id =
     (if slot_map r frame_id = None then r
      else r\<lparr> recent_pinned := insert frame_id (recent_pinned r),
              cur_size := cur_size r - 1 \<rparr>)"

definition Unpin :: "ClockReplacer \<Rightarrow> frame_id_t \<Rightarrow> ClockReplacer outcome" where
  "Unpin r frame_id =
     (if frame_id > capacity r then Returns r
      else case slot_map r frame_id of
        None \<Rightarrow>
          bind (find_next_available r (clock_hand r)) (\<lambda>slot.
          bind (vec_set (buckets r) slot frame_id) (\<lambda>bs.
          bind (vec_set (ref_bits r) slot 0) (\<lambda>rs.
          Returns (r\<lparr> buckets := bs, ref_bits := rs,
                      slot_map := (slot_map r)(frame_id \<mapsto> slot),
                      cur_size := cur_size r + 1 \<rparr>))))
      | Some slot \<Rightarrow>
          if frame_id \<in> recent_pinned r then
            bind (vec_set (ref_bits r) slot 1) (\<lambda>rs.
            Returns (r\<lparr> recent_pinned := recent_pinned r - {frame_id},
                        ref_bits := rs,
                        cur_size := cur_size r + 1 \<rparr>))
          else Returns r)"

text \<open>\<^verbatim>\<open>Size\<close> returns the \<^verbatim>\<open>int\<close> \<^verbatim>\<open>cur_size\<close> as a 64-bit \<^verbatim>\<open>size_t\<close>.\<close>

definition Size :: "ClockReplacer \<Rightarrow> nat" where
  "Size r = nat (cur_size r mod 2 ^ 64)"

text \<open>
  The tail of \<^verbatim>\<open>Victim\<close> after the \<^verbatim>\<open>while\<close> loop: the smallest frame id held by any
  bucket, then the erasure of its map entry. The bucket itself is not written.
\<close>

function smallest_loop :: "ClockReplacer \<Rightarrow> int \<Rightarrow> int \<Rightarrow> int outcome" where
  "smallest_loop r i smallest_frame_id =
     (if i < capacity r then
        (case vec_at (buckets r) i of
           Returns b \<Rightarrow>
             smallest_loop r (i + 1)
               (if b \<noteq> - 1 \<and> b < smallest_frame_id then b else smallest_frame_id)
         | Undefined e \<Rightarrow> Undefined e
         | Diverges \<Rightarrow> Diverges)
      else Returns smallest_frame_id)"
  by pat_completeness auto
termination
  by (relation "measure (\<lambda>(r, i, s). nat (capacity r - i))") auto

declare smallest_loop.simps [simp del]

definition Victim_fallback :: "ClockReplacer \<Rightarrow> (frame_id_t option \<times> ClockReplacer) outcome" where
  "Victim_fallback r =
     bind (smallest_loop r 0 INT_MAX) (\<lambda>smallest_frame_id.
     case slot_map r smallest_frame_id of
       None \<Rightarrow> Undefined Erase_end
     | Some _ \<Rightarrow>
         Returns (Some smallest_frame_id,
                  r\<lparr> slot_map := (slot_map r)(smallest_frame_id := None),
                     cur_size := cur_size r - 1 \<rparr>))"

text \<open>
  The \<^verbatim>\<open>while (sweep_cnt < cur_size)\<close> loop of \<^verbatim>\<open>Victim\<close>. It has no bound on the
  number of uncounted steps over empty and recently pinned buckets, so it is a partial
  function: \<open>None\<close> is the loop that never ends.
\<close>

partial_function (option) Victim_sweep ::
  "ClockReplacer \<Rightarrow> int \<Rightarrow> (frame_id_t option \<times> ClockReplacer) outcome option" where
  "Victim_sweep r sweep_cnt =
     (if sweep_cnt < cur_size r then
        (if capacity r = 0 then Some (Undefined Division_by_zero)
         else
           (let hand = clock_hand r smod capacity r in
            case vec_at (buckets r) hand of
              Undefined e \<Rightarrow> Some (Undefined e)
            | Diverges \<Rightarrow> Some Diverges
            | Returns b \<Rightarrow>
                if b = - 1 \<or> b \<in> recent_pinned r then
                  Victim_sweep (r\<lparr> clock_hand := hand + 1 \<rparr>) sweep_cnt
                else
                  (case vec_at (ref_bits r) hand of
                     Undefined e \<Rightarrow> Some (Undefined e)
                   | Diverges \<Rightarrow> Some Diverges
                   | Returns ref_bit \<Rightarrow>
                       if ref_bit = 1 then
                         Victim_sweep
                           (r\<lparr> clock_hand := hand + 1,
                               ref_bits := (ref_bits r)[nat hand := 0] \<rparr>)
                           (sweep_cnt + 1)
                       else
                         (case slot_map r b of
                            None \<Rightarrow> Some (Undefined Erase_end)
                          | Some _ \<Rightarrow>
                              Some (Returns (Some b,
                                r\<lparr> clock_hand := hand + 1,
                                   buckets := (buckets r)[nat hand := - 1],
                                   slot_map := (slot_map r)(b := None),
                                   cur_size := cur_size r - 1 \<rparr>))))))
      else Some (Victim_fallback r))"

declare Victim_sweep.simps [code]

text \<open>
  \<^verbatim>\<open>Victim\<close>: the result is the frame written through the out parameter
  (\<open>None\<close> when the function returns \<^verbatim>\<open>false\<close> and writes nothing) and the new state.
\<close>

definition Victim :: "ClockReplacer \<Rightarrow> (frame_id_t option \<times> ClockReplacer) outcome" where
  "Victim r =
     (if cur_size r = 0 then Returns (None, r)
      else case Victim_sweep r 0 of
        None \<Rightarrow> Diverges
      | Some res \<Rightarrow> res)"

text \<open>
  The eligible set of the replacer: the frames that have an entry in the map and are
  not in \<^verbatim>\<open>recent_pinned\<close> (the tombstones). \<open>slot_eligible\<close> reads the same set off
  the buckets, the way the sweep of \<^verbatim>\<open>Victim\<close> sees it.
\<close>

definition eligible :: "ClockReplacer \<Rightarrow> frame_id_t \<Rightarrow> bool" where
  "eligible r f = (slot_map r f \<noteq> None \<and> f \<notin> recent_pinned r)"

definition slot_eligible :: "ClockReplacer \<Rightarrow> frame_id_t \<Rightarrow> bool" where
  "slot_eligible r f = (f \<noteq> - 1 \<and> f \<in> set (buckets r) \<and> f \<notin> recent_pinned r)"

section \<open>The collaborators of the pool\<close>

text \<open>
  Modelled from the spec: \<^verbatim>\<open>common/config.h\<close> is not part of the sources at hand. The
  spec speaks of a reserved sentinel for "no page" and of a fixed page size; the values
  are those of BusTub.
\<close>

definition INVALID_PAGE_ID :: page_id_t where
  "INVALID_PAGE_ID = - 1"

definition PAGE_SIZE :: nat where
  "PAGE_SIZE = 4096"

text \<open>
  Modelled from the spec: the class \<^verbatim>\<open>Page\<close> (\<^verbatim>\<open>storage/page/page.h\<close>) is not part of
  the sources at hand. The spec gives a frame the bound page id (the sentinel when
  unbound), the pin count, the dirty flag and the bytes; \<^verbatim>\<open>ResetMemory\<close> zero-fills the
  bytes, and a frame starts unbound, unpinned, clean and zeroed.
\<close>

record Page =
  page_id :: page_id_t
  pin_count :: int
  is_dirty :: bool
  data :: "byte list"

definition ResetMemory :: "Page \<Rightarrow> Page" where
  "ResetMemory pg = pg\<lparr> data := replicate PAGE_SIZE 0 \<rparr>"

definition Page_ctor :: Page where
  "Page_ctor = ResetMemory
     \<lparr> page_id = INVALID_PAGE_ID, pin_count = 0, is_dirty = False, data = [] \<rparr>"

text \<open>
  Modelled from the spec: the class \<^verbatim>\<open>DiskManager\<close> is not part of the sources at hand.
  The spec has it allocate page ids monotonically, deallocate a page id, and read and
  write the bytes of a page synchronously. The model keeps the bytes stored under each
  page id, the next page id, and the trace of the calls it has received.
\<close>

datatype disk_call =
  Allocate page_id_t | Deallocate page_id_t | Read page_id_t | Write page_id_t "byte list"

record DiskManager =
  next_page_id :: page_id_t
  contents :: "page_id_t \<Rightarrow> byte list"
  trace :: "disk_call list"

definition AllocatePage :: "DiskManager \<Rightarrow> page_id_t \<times> DiskManager" where
  "AllocatePage d =
     (next_page_id d,
      d\<lparr> next_page_id := next_page_id d + 1, trace := trace d @ [Allocate (next_page_id d)] \<rparr>)"

definition DeallocatePage :: "DiskManager \<Rightarrow> page_id_t \<Rightarrow> DiskManager" where
  "DeallocatePage d p = d\<lparr> trace := trace d @ [Deallocate p] \<rparr>"

definition ReadPage :: "DiskManager \<Rightarrow> page_id_t \<Rightarrow> byte list \<times> DiskManager" where
  "ReadPage d p = (contents d p, d\<lparr> trace := trace d @ [Read p] \<rparr>)"

definition WritePage :: "DiskManager \<Rightarrow> page_id_t \<Rightarrow> byte list \<Rightarrow> DiskManager" where
  "WritePage d p bytes =
     d\<lparr> contents := (contents d)(p := bytes), trace := trace d @ [Write p bytes] \<rparr>"

section \<open>BufferPoolManager (buffer\_pool\_manager.cpp)\<close>

text \<open>
  The members the source file uses. \<^verbatim>\<open>cur_size_\<close> is \<open>bpm_cur_size\<close> here (the replacer
  has a \<^verbatim>\<open>cur_size\<close> of its own). Modelled from the spec: its declaration
  (\<^verbatim>\<open>buffer_pool_manager.h\<close>) is not part of the sources at hand; the spec calls it the
  count of bound frames, and the source compares it with the \<^verbatim>\<open>size_t\<close> \<^verbatim>\<open>pool_size_\<close>, so
  it is an unsigned 64-bit count. Its increment is guarded by
  \<^verbatim>\<open>cur_size_ < pool_size_\<close> and cannot wrap; its decrement wraps at 0.
  The log manager is stored and never used.
\<close>

record BufferPoolManager =
  pool_size :: nat
  pages :: "Page list"
  replacer :: ClockReplacer
  free_list :: "frame_id_t list"
  page_table :: "page_id_t \<rightharpoonup> frame_id_t"
  disk_manager :: DiskManager
  bpm_cur_size :: nat

definition BufferPoolManager_ctor :: "nat \<Rightarrow> DiskManager \<Rightarrow> BufferPoolManager" where
  "BufferPoolManager_ctor n d =
     \<lparr> pool_size = n, pages = replicate n Page_ctor, replacer = ClockReplacer_ctor n,
       free_list = map int [0..<n], page_table = Map.empty, disk_manager = d,
       bpm_cur_size = 0 \<rparr>"

definition update_page_metadata ::
  "BufferPoolManager \<Rightarrow> frame_id_t \<Rightarrow> page_id_t \<Rightarrow> BufferPoolManager outcome" where
  "update_page_metadata s frame_id pid =
     bind (vec_at (pages s) frame_id) (\<lambda>pg.
     Returns (s\<lparr> page_table := (page_table s)(pid \<mapsto> frame_id),
                 pages := (pages s)[nat frame_id :=
                   ResetMemory (pg\<lparr> page_id := pid, pin_count := 1, is_dirty := False \<rparr>)],
                 replacer := Pin (replacer s) frame_id \<rparr>))"

definition reset_page_metadata ::
  "BufferPoolManager \<Rightarrow> frame_id_t \<Rightarrow> BufferPoolManager outcome" where
  "reset_page_metadata s frame_id =
     bind (vec_at (pages s) frame_id) (\<lambda>pg.
     Returns (s\<lparr> pages := (pages s)[nat frame_id :=
       ResetMemory (pg\<lparr> page_id := INVALID_PAGE_ID, pin_count := 0, is_dirty := False \<rparr>)] \<rparr>))"

definition FlushPageImpl ::
  "BufferPoolManager \<Rightarrow> page_id_t \<Rightarrow> (bool \<times> BufferPoolManager) outcome" where
  "FlushPageImpl s pid =
     (case page_table s pid of
        None \<Rightarrow> Returns (False, s)
      | Some frame_id \<Rightarrow>
          bind (vec_at (pages s) frame_id) (\<lambda>pg.
          Returns (True, s\<lparr> disk_manager := WritePage (disk_manager s) pid (data pg) \<rparr>)))"

text \<open>
  \<^verbatim>\<open>FetchPageImpl\<close>. The returned pointer \<^verbatim>\<open>&pages_[f]\<close> is the frame id \<open>f\<close>,
  \<^verbatim>\<open>nullptr\<close> is \<open>None\<close>. \<^verbatim>\<open>page_table_.erase(page_table_.find(k))\<close> with no entry for
  \<open>k\<close> erases the end iterator.
\<close>

definition FetchPageImpl ::
  "BufferPoolManager \<Rightarrow> page_id_t \<Rightarrow> (frame_id_t option \<times> BufferPoolManager) outcome" where
  "FetchPageImpl s pid =
     (case page_table s pid of
        Some frame_id \<Rightarrow>
          bind (vec_at (pages s) frame_id) (\<lambda>pg.
          Returns (Some frame_id,
            s\<lparr> pages := (pages s)[nat frame_id := pg\<lparr> pin_count := pin_count pg + 1 \<rparr>] \<rparr>))
      | None \<Rightarrow>
          bind (if free_list s \<noteq> []
                then Returns (hd (free_list s), s\<lparr> free_list := tl (free_list s) \<rparr>)
                else bind (Victim (replacer s)) (\<lambda>(v, r).
                     Returns (case v of Some f \<Rightarrow> f | None \<Rightarrow> - 1, s\<lparr> replacer := r \<rparr>)))
          (\<lambda>(replace_frame_id, s1).
          if replace_frame_id = - 1 then Returns (None, s1)
          else
            bind (vec_at (pages s1) replace_frame_id) (\<lambda>victim.
            let replace_page_id = page_id victim in
            bind (if is_dirty victim
                  then bind (FlushPageImpl s1 replace_page_id) (\<lambda>(_, s'). Returns s')
                  else Returns s1) (\<lambda>s2.
            case page_table s2 replace_page_id of
              None \<Rightarrow> Undefined Erase_end
            | Some _ \<Rightarrow>
                bind (update_page_metadata
                        (s2\<lparr> page_table :=
                              ((page_table s2)(replace_page_id := None))(pid \<mapsto> replace_frame_id) \<rparr>)
                        replace_frame_id pid) (\<lambda>s3.
                bind (vec_at (pages s3) replace_frame_id) (\<lambda>pg.
                let (bytes, d) = ReadPage (disk_manager s3) pid in
                Returns (Some replace_frame_id,
                  s3\<lparr> pages := (pages s3)[nat replace_frame_id := pg\<lparr> data := bytes \<rparr>],
                      disk_manager := d \<rparr>)))))))"

definition UnpinPageImpl ::
  "BufferPoolManager \<Rightarrow> page_id_t \<Rightarrow> bool \<Rightarrow> (bool \<times> BufferPoolManager) outcome" where
  "UnpinPageImpl s pid dirty =
     (if pid = INVALID_PAGE_ID then Returns (False, s)
      else case page_table s pid of
        None \<Rightarrow> Returns (False, s)
      | Some frame_id \<Rightarrow>
          bind (vec_at (pages s) frame_id) (\<lambda>pg.
          let pg1 = pg\<lparr> pin_count := pin_count pg - 1 \<rparr>;
              s1 = s\<lparr> pages := (pages s)[nat frame_id := pg1] \<rparr> in
          bind (if pin_count pg1 = 0
                then bind (Unpin (replacer s1) frame_id) (\<lambda>r.
                     Returns (s1\<lparr> replacer := r, free_list := free_list s1 @ [frame_id] \<rparr>))
                else Returns s1) (\<lambda>s2.
          let pg2 = pg1\<lparr> is_dirty := (is_dirty pg1 \<or> dirty) \<rparr>;
              s3 = s2\<lparr> pages := (pages s2)[nat frame_id := pg2] \<rparr> in
          if is_dirty pg2
          then bind (FlushPageImpl s3 pid) (\<lambda>(_, s4). Returns (True, s4))
          else Returns (True, s3))))"

text \<open>
  \<^verbatim>\<open>NewPageImpl\<close>. The result is the page id written through the out parameter together
  with the frame id of the returned pointer. \<^verbatim>\<open>frame_id_tmp\<close> keeps its value when
  \<^verbatim>\<open>Victim\<close> returns \<^verbatim>\<open>false\<close>. The \<^verbatim>\<open>&&\<close> of the first test calls \<^verbatim>\<open>Victim\<close> only when
  the two tests before it hold.
\<close>

definition NewPageImpl ::
  "BufferPoolManager \<Rightarrow> ((page_id_t \<times> frame_id_t) option \<times> BufferPoolManager) outcome" where
  "NewPageImpl s =
     bind (if bpm_cur_size s = pool_size s \<and> free_list s = []
           then bind (Victim (replacer s)) (\<lambda>(v, r). Returns (v, s\<lparr> replacer := r \<rparr>))
           else Returns (Some 0, s)) (\<lambda>(v0, s0).
     case v0 of
       None \<Rightarrow> Returns (None, s0)
     | Some frame_id_tmp0 \<Rightarrow>
         (let (new_page_id, d) = AllocatePage (disk_manager s0);
              s1 = s0\<lparr> disk_manager := d \<rparr> in
          if bpm_cur_size s1 < pool_size s1 then
            (if free_list s1 = [] then Undefined Front_of_empty
             else
               (let frame_id_tmp = hd (free_list s1);
                    s2 = s1\<lparr> free_list := tl (free_list s1) \<rparr> in
                bind (update_page_metadata s2 frame_id_tmp new_page_id) (\<lambda>s3.
                Returns (Some (new_page_id, frame_id_tmp),
                         s3\<lparr> bpm_cur_size := bpm_cur_size s3 + 1 \<rparr>))))
          else if bpm_cur_size s1 = pool_size s1 then
            bind (if free_list s1 \<noteq> []
                  then Returns (hd (free_list s1), s1\<lparr> free_list := tl (free_list s1) \<rparr>)
                  else bind (Victim (replacer s1)) (\<lambda>(v, r).
                       Returns (case v of Some f \<Rightarrow> f | None \<Rightarrow> frame_id_tmp0,
                                s1\<lparr> replacer := r \<rparr>)))
            (\<lambda>(frame_id_tmp, s2).
            bind (vec_at (pages s2) frame_id_tmp) (\<lambda>victim.
            let evict_page_id = page_id victim in
            case page_table s2 evict_page_id of
              None \<Rightarrow> Undefined Erase_end
            | Some _ \<Rightarrow>
                bind (update_page_metadata
                        (s2\<lparr> page_table := (page_table s2)(evict_page_id := None) \<rparr>)
                        frame_id_tmp new_page_id) (\<lambda>s3.
                Returns (Some (new_page_id, frame_id_tmp), s3))))
          else Returns (Some (new_page_id, frame_id_tmp0), s1)))"

text \<open>
  \<^verbatim>\<open>DeletePageImpl\<close>. After the erasure, \<^verbatim>\<open>page_table_[page_id]\<close> finds no entry, so
  \<^verbatim>\<open>operator[]\<close> inserts one with the value-initialised frame id 0 and yields 0.
  The function makes no call to the disk manager.
\<close>

definition DeletePageImpl ::
  "BufferPoolManager \<Rightarrow> page_id_t \<Rightarrow> (bool \<times> BufferPoolManager) outcome" where
  "DeletePageImpl s pid =
     (case page_table s pid of
        None \<Rightarrow> Returns (True, s)
      | Some frame_id \<Rightarrow>
          bind (vec_at (pages s) frame_id) (\<lambda>pg.
          if pin_count pg \<noteq> 0 then Returns (False, s)
          else
            (let s1 = s\<lparr> page_table := (page_table s)(pid := None),
                         bpm_cur_size :=
                           (if bpm_cur_size s = 0 then 2 ^ 64 - 1 else bpm_cur_size s - 1) \<rparr>;
                 s2 = s1\<lparr> page_table := (page_table s1)(pid \<mapsto> 0),
                          free_list := free_list s1 @ [0] \<rparr> in
             bind (reset_page_metadata s2 frame_id) (\<lambda>s3. Returns (True, s3)))))"

section \<open>Sequences of calls on the pool\<close>

text \<open>
  The public operations of the pool and what each returns, to state properties of the
  states that a sequence of calls reaches from a freshly constructed pool.
\<close>

datatype call =
  FetchPage page_id_t | NewPage | UnpinPage page_id_t bool | FlushPage page_id_t
  | DeletePage page_id_t

datatype ret =
  Frame "frame_id_t option" | Fresh "(page_id_t \<times> frame_id_t) option" | Flag bool

fun step :: "BufferPoolManager \<Rightarrow> call \<Rightarrow> (ret \<times> BufferPoolManager) outcome" where
  "step s (FetchPage p) = bind (FetchPageImpl s p) (\<lambda>(r, s'). Returns (Frame r, s'))"
| "step s NewPage = bind (NewPageImpl s) (\<lambda>(r, s'). Returns (Fresh r, s'))"
| "step s (UnpinPage p d) = bind (UnpinPageImpl s p d) (\<lambda>(r, s'). Returns (Flag r, s'))"
| "step s (FlushPage p) = bind (FlushPageImpl s p) (\<lambda>(r, s'). Returns (Flag r, s'))"
| "step s (DeletePage p) = bind (DeletePageImpl s p) (\<lambda>(r, s'). Returns (Flag r, s'))"

fun run :: "BufferPoolManager \<Rightarrow> call list \<Rightarrow> (ret list \<times> BufferPoolManager) outcome" where
  "run s [] = Returns ([], s)"
| "run s (c # cs) =
     bind (step s c) (\<lambda>(r, s').
     bind (run s' cs) (\<lambda>(rs, s''). Returns (r # rs, s'')))"

text \<open>The disk the examples start from: nothing allocated, every page all zero.\<close>

definition disk0 :: DiskManager where
  "disk0 = \<lparr> next_page_id = 0, contents = (\<lambda>_. replicate PAGE_SIZE 0), trace = [] \<rparr>"

text \<open>
  The calls that pin a page, the results that report success, and the page id a
  successful pinning call has pinned.
\<close>

fun pinning :: "call \<Rightarrow> bool" where
  "pinning (FetchPage _) = True"
| "pinning NewPage = True"
| "pinning _ = False"

fun succeeded :: "ret \<Rightarrow> bool" where
  "succeeded (Frame r) = (r \<noteq> None)"
| "succeeded (Fresh r) = (r \<noteq> None)"
| "succeeded (Flag b) = b"

fun pinned_page :: "call \<Rightarrow> ret \<Rightarrow> page_id_t option" where
  "pinned_page (FetchPage p) _ = Some p"
| "pinned_page NewPage (Fresh (Some (p, f))) = Some p"
| "pinned_page _ _ = None"

text \<open>
  The shape of a pool of size \<open>N\<close> in which the first \<open>k\<close> frames have been bound and
  nothing has been unpinned: the free list holds the frames from \<open>k\<close> on, which are
  still unbound, and the replacer is as constructed.
\<close>

definition all_pinned :: "nat \<Rightarrow> nat \<Rightarrow> BufferPoolManager \<Rightarrow> bool" where
  "all_pinned N k s =
     (pool_size s = N \<and> length (pages s) = N \<and> k \<le> N \<and>
      free_list s = map int [k..<N] \<and> bpm_cur_size s = k \<and>
      replacer s = ClockReplacer_ctor N \<and>
      (\<forall>i. k \<le> i \<and> i < N \<longrightarrow> page_id (pages s ! i) = INVALID_PAGE_ID) \<and>
      page_table s INVALID_PAGE_ID = None \<and>
      0 \<le> next_page_id (disk_manager s))"

text \<open>
  A pool of size 2 in the shape the description gives to unpinned pages: both frames
  bound, unpinned and dirty, both eligible in the replacer, and the free list empty.
  It is written down directly; \<open>UnpinPageImpl\<close> itself would have put both frames on
  the free list as well.
\<close>

definition tracked_pool :: BufferPoolManager where
  "tracked_pool =
     \<lparr> pool_size = 2,
       pages = [\<lparr> page_id = 0, pin_count = 0, is_dirty = True, data = replicate PAGE_SIZE 0 \<rparr>,
                \<lparr> page_id = 1, pin_count = 0, is_dirty = True, data = replicate PAGE_SIZE 0 \<rparr>],
       replacer = \<lparr> capacity = 2, cur_size = 2, clock_hand = 0, buckets = [0, 1],
                    ref_bits = [0, 0], slot_map = [0 \<mapsto> 0, 1 \<mapsto> 1], recent_pinned = {} \<rparr>,
       free_list = [], page_table = [0 \<mapsto> 0, 1 \<mapsto> 1],
       disk_manager = disk0 \<lparr> next_page_id := 2 \<rparr>, bpm_cur_size = 2 \<rparr>"

section \<open>Evaluation\<close>

lemmas replacer_eval =
  Unpin_def Pin_def find_next_available_def find_next_available_loop.simps
  vec_at_def vec_set_def bind_def Victim_def Victim_sweep.simps smallest_loop.simps
  Victim_fallback_def ClockReplacer_ctor_def signed_modulo_int_def Size_def INT_MAX_def
  eligible_def slot_eligible_def Let_def eval_nat_numeral

lemmas pool_eval =
  BufferPoolManager_ctor_def Page_ctor_def ResetMemory_def disk0_def
  NewPageImpl_def FetchPageImpl_def UnpinPageImpl_def FlushPageImpl_def DeletePageImpl_def
  update_page_metadata_def reset_page_metadata_def
  AllocatePage_def ReadPage_def WritePage_def INVALID_PAGE_ID_def upt_rec

section \<open>The replacer\<close>

text \<open>
  C9. A replacer of capacity 3, starting empty: after \<open>unpin(A); unpin(B); pin(A);
  unpin(A)\<close> the reference bit of \<open>A\<close> is 1; the first \<open>victim()\<close> passes over \<open>A\<close>,
  clearing its bit to 0, and returns \<open>B\<close>; the next \<open>victim()\<close> returns \<open>A\<close>, and the
  replacer is empty. \<open>A\<close> and \<open>B\<close> are any two different frame ids of a pool of size 3.
\<close>

theorem clock_second_chance:
  assumes "0 \<le> A" "A < 3" "0 \<le> B" "B < 3" "A \<noteq> B"
  shows "bind (Unpin (ClockReplacer_ctor 3) A) (\<lambda>r1.
         bind (Unpin r1 B) (\<lambda>r2.
         bind (Unpin (Pin r2 A) A) (\<lambda>r3.
         bind (Victim r3) (\<lambda>(v1, r4).
         bind (Victim r4) (\<lambda>(v2, r5).
         Returns (vec_at (ref_bits r3) (the (slot_map r3 A)), v1,
                  vec_at (ref_bits r4) (the (slot_map r4 A)), v2, Size r5))))))
       = Returns (Returns 1, Some B, Returns 0, Some A, 0)"
  using assms by (simp add: replacer_eval)

theorem clock_second_chance_witness:
  "(0::int) \<le> 0 \<and> (0::int) < 3 \<and> (0::int) \<le> 1 \<and> (1::int) < 3 \<and> (0::int) \<noteq> 1 \<and>
   bind (Unpin (ClockReplacer_ctor 3) 0) (\<lambda>r1.
   bind (Unpin r1 1) (\<lambda>r2.
   bind (Unpin (Pin r2 0) 0) (\<lambda>r3.
   bind (Victim r3) (\<lambda>(v1, r4).
   bind (Victim r4) (\<lambda>(v2, r5).
   Returns (vec_at (ref_bits r3) (the (slot_map r3 0)), v1,
            vec_at (ref_bits r4) (the (slot_map r4 0)), v2, Size r5))))))
   = Returns (Returns 1, Some 1, Returns 0, Some 0, 0)"
  using clock_second_chance [of 0 1] by simp

text \<open>
  C8. The claim: when the counted sweep of \<open>victim()\<close> finds no slot with reference
  bit 0, the frame evicted is the smallest tracked frame id, tombstoned frames not
  counted, and that frame leaves the eligible set. The code at
  \<open>unpin(1); unpin(0); pin(0); pin(1); unpin(1)\<close> on a replacer of capacity 3: frame 0 is
  a tombstone and frame 1 is the one eligible frame, with reference bit 1. The sweep
  clears that bit, and the fall-back returns frame 0, the tombstone; frame 1 stays
  eligible, and the bucket of frame 0 is not emptied.
\<close>

theorem fallback_evicts_tombstone:
  "bind (Unpin (ClockReplacer_ctor 3) 1) (\<lambda>r1.
   bind (Unpin r1 0) (\<lambda>r2.
   bind (Unpin (Pin (Pin r2 0) 1) 1) (\<lambda>r.
   bind (Victim r) (\<lambda>(v, r').
   Returns (eligible r 0, eligible r 1, recent_pinned r, Size r, ref_bits r,
            v, eligible r' 1, buckets r', ref_bits r')))))
   = Returns (False, True, {0}, 1, [1, 0, - 1],
              Some 0, True, [1, 0, - 1], [0, 0, - 1])"
  by (simp add: replacer_eval)

text \<open>
  The sweep of \<open>Victim\<close> on a ring whose buckets are all empty while \<^verbatim>\<open>cur_size\<close> is
  above the count of the sweep: every step is an uncounted one, and the loop never
  ends.
\<close>

lemma smod_nonneg: "0 \<le> a \<Longrightarrow> 0 < b \<Longrightarrow> (a::int) smod b = a mod b"
  by (cases "a = 0") (simp_all add: signed_modulo_int_def)

lemma Victim_sweep_empty_ring:
  assumes "Victim_sweep r0 cnt0 = Some y0"
  shows "\<not> (set (buckets r0) \<subseteq> {- 1} \<and> capacity r0 = int (length (buckets r0)) \<and>
            0 < capacity r0 \<and> 0 \<le> clock_hand r0 \<and> cnt0 < cur_size r0)"
proof (rule Victim_sweep.raw_induct [where P = "\<lambda>r cnt y.
    \<not> (set (buckets r) \<subseteq> {- 1} \<and> capacity r = int (length (buckets r)) \<and>
       0 < capacity r \<and> 0 \<le> clock_hand r \<and> cnt < cur_size r)", OF _ assms], goal_cases)
  case (1 sweep r cnt y)
  show ?case
  proof
    assume inv: "set (buckets r) \<subseteq> {- 1} \<and> capacity r = int (length (buckets r)) \<and>
            0 < capacity r \<and> 0 \<le> clock_hand r \<and> cnt < cur_size r"
    let ?hand = "clock_hand r smod capacity r"
    from inv have pos: "0 \<le> clock_hand r" "0 < capacity r"
      and len: "capacity r = int (length (buckets r))"
      and empty: "set (buckets r) \<subseteq> {- 1}"
      and go: "cnt < cur_size r" by blast+
    have "?hand = clock_hand r mod capacity r"
      by (rule smod_nonneg [OF pos])
    with pos have "0 \<le> ?hand" "?hand < capacity r" by simp_all
    with len have h: "0 \<le> ?hand" "?hand < int (length (buckets r))" by simp_all
    then have "buckets r ! nat ?hand \<in> set (buckets r)" by simp
    with empty have "buckets r ! nat ?hand = - 1" by auto
    with h have at: "vec_at (buckets r) ?hand = Returns (- 1)"
      by (simp add: vec_at_def)
    from pos have ne: "capacity r \<noteq> 0" by simp
    from 1(2) go ne at have next_step: "sweep (r\<lparr> clock_hand := ?hand + 1 \<rparr>) cnt = Some y"
      by (simp add: Let_def)
    from 1(1) [OF next_step] empty len pos(2) h(1) go show False by simp
  qed
qed

text \<open>
  Such a ring arises from calls on the replacer alone. \<open>unpin(0); pin(0); unpin(1)\<close>
  gives frame 1 the bucket of the tombstoned frame 0; \<open>unpin(0)\<close> revives frame 0,
  which no bucket holds any more. The first \<open>victim()\<close> returns frame 1 and leaves
  \<open>Size\<close> at 1; the second one does not return.
\<close>

lemma Victim_does_not_return:
  "bind (Unpin (ClockReplacer_ctor 3) 0) (\<lambda>r1.
   bind (Unpin (Pin r1 0) 1) (\<lambda>r2.
   bind (Unpin r2 0) (\<lambda>r3.
   bind (Victim r3) (\<lambda>(v, r4).
   bind (Victim r4) (\<lambda>(v', _). Returns (v, Size r4, v')))))) = Diverges"
proof -
  obtain r4 where r4: "bind (Unpin (ClockReplacer_ctor 3) 0) (\<lambda>r1.
      bind (Unpin (Pin r1 0) 1) (\<lambda>r2. bind (Unpin r2 0) Victim)) = Returns (Some 1, r4)"
    and st: "buckets r4 = [- 1, - 1, - 1]" "capacity r4 = 3" "clock_hand r4 = 1"
      "cur_size r4 = 1"
    by (simp add: replacer_eval)
  have "Victim_sweep r4 0 = None"
  proof (cases "Victim_sweep r4 0")
    case (Some y)
    from Victim_sweep_empty_ring [OF this] st show ?thesis by simp
  qed simp
  with st have "Victim r4 = Diverges" by (simp add: Victim_def)
  with r4 show ?thesis
    by (auto simp add: bind_def split: outcome.splits)
qed

section \<open>A pool with every frame pinned\<close>

lemma Victim_ctor: "Victim (ClockReplacer_ctor N) = Returns (None, ClockReplacer_ctor N)"
  by (simp add: Victim_def ClockReplacer_ctor_def)

lemma Pin_ctor: "Pin (ClockReplacer_ctor N) f = ClockReplacer_ctor N"
  by (simp add: Pin_def ClockReplacer_ctor_def)

lemma all_pinned_ctor:
  "0 \<le> next_page_id d \<Longrightarrow> all_pinned N 0 (BufferPoolManager_ctor N d)"
  by (simp add: all_pinned_def BufferPoolManager_ctor_def Page_ctor_def ResetMemory_def)

lemma Fetch_miss_full:
  assumes "all_pinned N N s" "page_table s p = None"
  shows "FetchPageImpl s p = Returns (None, s)"
  using assms by (simp add: all_pinned_def FetchPageImpl_def Victim_ctor bind_def)

lemma Fetch_miss_free:
  assumes "all_pinned N k s" "k < N" "page_table s p = None"
  shows "FetchPageImpl s p = Undefined Erase_end"
proof -
  from assms have fl: "free_list s = int k # map int [Suc k..<N]"
    by (simp add: all_pinned_def upt_conv_Cons)
  from assms have pg: "vec_at (pages s) (int k) = Returns (pages s ! k)"
    by (simp add: all_pinned_def vec_at_def)
  from assms have unbound:
    "page_id (pages s ! k) = INVALID_PAGE_ID" "page_table s INVALID_PAGE_ID = None"
    by (simp_all add: all_pinned_def)
  show ?thesis
    using fl pg unbound assms(3)
    by (simp add: FetchPageImpl_def bind_def FlushPageImpl_def INVALID_PAGE_ID_def Let_def)
qed

lemma New_full:
  assumes "all_pinned N N s"
  shows "NewPageImpl s = Returns (None, s)"
  using assms by (simp add: all_pinned_def NewPageImpl_def Victim_ctor bind_def)

lemma New_free:
  assumes "all_pinned N k s" "k < N"
  shows "\<exists>s'. NewPageImpl s = Returns (Some (next_page_id (disk_manager s), int k), s') \<and>
     all_pinned N (Suc k) s' \<and>
     page_table s' = (page_table s)(next_page_id (disk_manager s) \<mapsto> int k)"
proof -
  from assms have fl: "free_list s = int k # map int [Suc k..<N]"
    by (simp add: all_pinned_def upt_conv_Cons)
  from assms have pg: "vec_at (pages s) (int k) = Returns (pages s ! k)"
    by (simp add: all_pinned_def vec_at_def)
  show ?thesis
    using fl pg assms
    by (auto simp add: NewPageImpl_def bind_def all_pinned_def AllocatePage_def
        update_page_metadata_def Pin_ctor ResetMemory_def INVALID_PAGE_ID_def Let_def)
qed

text \<open>
  A run of pinning calls that all succeed on page ids that are pairwise different and
  not yet resident consists of \<open>NewPage\<close> calls that take the free frames in order.
\<close>

lemma run_all_pinned:
  assumes "all_pinned N k s" "run s cs = Returns (rs, s')"
    and "list_all pinning cs" "list_all succeeded rs"
    and "distinct (map2 pinned_page cs rs)"
    and "\<forall>p \<in> dom (page_table s). Some p \<notin> set (map2 pinned_page cs rs)"
  shows "all_pinned N (k + length cs) s'"
  using assms
proof (induction cs arbitrary: k s rs)
  case Nil
  then show ?case by simp
next
  case (Cons c cs)
  from Cons.prems(2) obtain r s1 rs1 where
    st: "step s c = Returns (r, s1)" and rn: "run s1 cs = Returns (rs1, s')"
    and rs: "rs = r # rs1"
    by (auto simp: bind_def split: outcome.splits prod.splits)
  from Cons.prems(1) have kN: "k \<le> N" by (simp add: all_pinned_def)
  show ?case
  proof (cases c)
    case (FetchPage p)
    with Cons.prems(6) rs have miss: "page_table s p = None"
      by (auto simp: domIff)
    have "FetchPageImpl s p = Undefined Erase_end \<or> FetchPageImpl s p = Returns (None, s)"
      using Fetch_miss_free [OF Cons.prems(1) _ miss] Fetch_miss_full [OF _ miss]
        Cons.prems(1) kN
      by (cases "k < N") auto
    with st FetchPage Cons.prems(4) rs show ?thesis
      by (auto simp: bind_def)
  next
    case NewPage
    have lt: "k < N"
    proof (rule ccontr)
      assume "\<not> k < N"
      with kN have "k = N" by simp
      with Cons.prems(1) have "NewPageImpl s = Returns (None, s)" by (simp add: New_full)
      with st NewPage Cons.prems(4) rs show False by (auto simp: bind_def)
    qed
    from New_free [OF Cons.prems(1) lt] obtain s2 where
      nw: "NewPageImpl s = Returns (Some (next_page_id (disk_manager s), int k), s2)"
      and inv: "all_pinned N (Suc k) s2"
      and pt: "page_table s2 = (page_table s)(next_page_id (disk_manager s) \<mapsto> int k)"
      by blast
    from nw st NewPage have r: "r = Fresh (Some (next_page_id (disk_manager s), int k))"
      and s1: "s1 = s2"
      by (auto simp: bind_def)
    have "all_pinned N (Suc k + length cs) s'"
    proof (rule Cons.IH [OF _ rn])
      show "all_pinned N (Suc k) s1" using inv s1 by simp
      show "list_all pinning cs" using Cons.prems(3) by simp
      show "list_all succeeded rs1" using Cons.prems(4) rs by simp
      show "distinct (map2 pinned_page cs rs1)" using Cons.prems(5) rs by simp
      show "\<forall>p\<in>dom (page_table s1). Some p \<notin> set (map2 pinned_page cs rs1)"
        using Cons.prems(5,6) rs r NewPage pt s1 by auto
    qed
    then show ?thesis by simp
  qed (use Cons.prems(3) in auto)
qed

text \<open>
  C6. A pool of size \<open>N\<close>, constructed over a disk manager whose page ids start at 0 or
  above. After any \<open>N\<close> \<open>NewPage\<close>/\<open>FetchPage\<close> calls that all return a frame, on
  pairwise different page ids, with no unpin between them, a \<open>FetchPage\<close> of a page
  that is not resident and a \<open>NewPage\<close> both return the failure value and leave the
  pool as it is; neither is undefined.
\<close>

theorem capacity_bound:
  assumes "run (BufferPoolManager_ctor N d) cs = Returns (rs, s)"
    and "0 \<le> next_page_id d"
    and "length cs = N"
    and "list_all pinning cs" and "list_all succeeded rs"
    and "distinct (map2 pinned_page cs rs)"
    and "page_table s p = None"
  shows "FetchPageImpl s p = Returns (None, s) \<and> NewPageImpl s = Returns (None, s)"
proof -
  have "all_pinned N (0 + length cs) s"
    by (rule run_all_pinned
          [OF all_pinned_ctor [OF assms(2)] assms(1) assms(4) assms(5) assms(6)])
       (simp add: BufferPoolManager_ctor_def)
  with assms(3) have "all_pinned N N s" by simp
  with assms(7) show ?thesis by (simp add: Fetch_miss_full New_full)
qed

theorem capacity_bound_witness:
  "case run (BufferPoolManager_ctor 2 disk0) [NewPage, NewPage] of
     Returns (rs, s) \<Rightarrow>
       0 \<le> next_page_id disk0 \<and> length [NewPage, NewPage] = 2 \<and>
       list_all pinning [NewPage, NewPage] \<and> list_all succeeded rs \<and>
       distinct (map2 pinned_page [NewPage, NewPage] rs) \<and> page_table s 7 = None \<and>
       FetchPageImpl s 7 = Returns (None, s) \<and> NewPageImpl s = Returns (None, s)
   | _ \<Rightarrow> False"
proof -
  obtain rs s where
    r: "run (BufferPoolManager_ctor 2 disk0) [NewPage, NewPage] = Returns (rs, s)"
    and h: "0 \<le> next_page_id disk0" "length [NewPage, NewPage] = 2"
      "list_all pinning [NewPage, NewPage]" "list_all succeeded rs"
      "distinct (map2 pinned_page [NewPage, NewPage] rs)" "page_table s 7 = None"
    by (simp add: replacer_eval pool_eval)
  show ?thesis
    unfolding r using capacity_bound [OF r h] h by simp
qed

section \<open>FlushPage\<close>

text \<open>
  C10. \<open>FlushPage\<close> on a resident page (its frame id inside the frame array) returns
  true and the pool with the frame's bytes written to the disk manager under the page
  id. Nothing else is changed: the frames with their dirty flags, pin counts and page
  ids, the page table, the free list, the replacer and the count of bound frames are
  those of the pool before. A dirty frame is still dirty afterwards.
\<close>

theorem FlushPage_writes_only:
  assumes "page_table s pid = Some f" "0 \<le> f" "f < int (length (pages s))"
  shows "FlushPageImpl s pid =
    Returns (True, s\<lparr> disk_manager := WritePage (disk_manager s) pid (data (pages s ! nat f)) \<rparr>)"
  using assms by (simp add: FlushPageImpl_def bind_def vec_at_def)

theorem FlushPage_writes_only_witness:
  "case run (BufferPoolManager_ctor 1 disk0) [NewPage, UnpinPage 0 True] of
     Returns (_, s) \<Rightarrow>
       page_table s 0 = Some 0 \<and> (0::int) \<le> 0 \<and> 0 < int (length (pages s)) \<and>
       is_dirty (pages s ! 0) \<and>
       FlushPageImpl s 0 =
         Returns (True,
           s\<lparr> disk_manager := WritePage (disk_manager s) 0 (data (pages s ! nat 0)) \<rparr>)
   | _ \<Rightarrow> False"
proof -
  obtain rs s where
    r: "run (BufferPoolManager_ctor 1 disk0) [NewPage, UnpinPage 0 True] = Returns (rs, s)"
    and h: "page_table s 0 = Some 0" "(0::int) \<le> 0" "0 < int (length (pages s))"
      "is_dirty (pages s ! 0)"
    by (simp add: replacer_eval pool_eval)
  show ?thesis
    unfolding r using FlushPage_writes_only [OF h(1-3)] h by simp
qed

text \<open>
  The dirty flag that \<open>FlushPage\<close> leaves set makes the eviction of the frame by a
  later \<open>FetchPage\<close> write the page once more: the trace has the write of the unpin,
  the write of the flush and the write of the eviction.
\<close>

lemma flushed_dirty_frame_written_again:
  "bind (run (BufferPoolManager_ctor 1 disk0)
           [NewPage, UnpinPage 0 True, FlushPage 0, FetchPage 7]) (\<lambda>(rs, s).
   Returns (rs, trace (disk_manager s)))
   = Returns ([Fresh (Some (0, 0)), Flag True, Flag True, Frame (Some 0)],
       [Allocate 0, Write 0 (replicate PAGE_SIZE 0), Write 0 (replicate PAGE_SIZE 0),
        Write 0 (replicate PAGE_SIZE 0), Read 7])"
  by (simp add: replacer_eval pool_eval)

section \<open>Where the pool departs from its description\<close>

text \<open>
  The first \<open>FetchPage\<close> on a freshly constructed pool, for every pool size above 0,
  every disk manager and every page id: the frame taken from the free list carries the
  sentinel page id, the page table has no entry for it, \<^verbatim>\<open>find\<close> yields the end
  iterator and \<^verbatim>\<open>erase\<close> is applied to it.
\<close>

lemma fresh_pool_fetch_undefined:
  "0 < n \<Longrightarrow> FetchPageImpl (BufferPoolManager_ctor n d) p = Undefined Erase_end"
  by (simp add: FetchPageImpl_def BufferPoolManager_ctor_def upt_conv_Cons bind_def
      vec_at_def Page_ctor_def ResetMemory_def INVALID_PAGE_ID_def FlushPageImpl_def Let_def)

text \<open>
  C7. The claim: a \<open>FetchPage\<close> miss whose frame comes from the free list and has
  never been bound removes no page-table entry, is well defined, inserts the new page
  id and reads the page from disk; so for the first fetch into a fresh pool. The code
  at the first \<open>FetchPage(5)\<close> on a pool of size 1, and at the first \<open>FetchPage(0)\<close> on
  a pool of size 3: the erasure of the end iterator, which is undefined.
\<close>

theorem first_fetch_erases_end:
  "FetchPageImpl (BufferPoolManager_ctor 1 disk0) 5 = Undefined Erase_end \<and>
   run (BufferPoolManager_ctor 3 disk0) [FetchPage 0] = Undefined Erase_end"
  by (simp add: fresh_pool_fetch_undefined bind_def)

text \<open>
  C1. The claim: a frame with a pin count above 0 is not in the replacer's eligible
  set, so after a \<open>FetchPage\<close> hit on a page whose pin count was 0. The code on a pool
  of size 1 at \<open>NewPage; UnpinPage(0, false); FetchPage(0)\<close>: the hit raises the pin
  count of frame 0 to 1 and does not tell the replacer; frame 0 is still eligible, and
  \<open>Victim\<close> on that replacer returns it.
\<close>

theorem fetch_hit_leaves_frame_eligible:
  "bind (run (BufferPoolManager_ctor 1 disk0) [NewPage, UnpinPage 0 False, FetchPage 0])
     (\<lambda>(rs, s).
   bind (Victim (replacer s)) (\<lambda>(v, _).
   Returns (rs, map pin_count (pages s), eligible (replacer s) 0,
            slot_eligible (replacer s) 0, Size (replacer s), v)))
   = Returns ([Fresh (Some (0, 0)), Flag True, Frame (Some 0)], [1], True, True, 1, Some 0)"
  by (simp add: replacer_eval pool_eval)

text \<open>
  C2. The claim: a frame id is in the free list or bound in the page table, never
  both; \<open>UnpinPage\<close> taking a pin count to 0 does not put the bound frame on the free
  list. The code on a pool of size 1 at \<open>NewPage; UnpinPage(0, false)\<close>: frame 0 is
  bound to page 0, eligible in the replacer, and on the free list. Continued with
  \<open>FetchPage(0); NewPage\<close>: page 0 is pinned again, and \<open>NewPage\<close> takes frame 0 from
  the free list and rebinds it while its pin count is 1.
\<close>

theorem unpin_puts_bound_frame_on_free_list:
  "bind (run (BufferPoolManager_ctor 1 disk0) [NewPage, UnpinPage 0 False]) (\<lambda>(rs, s).
   bind (run s [FetchPage 0]) (\<lambda>(rs1, s1).
   bind (run s1 [NewPage]) (\<lambda>(rs2, s2).
   Returns (rs, map page_id (pages s), page_table s 0, free_list s, eligible (replacer s) 0,
            rs1, map pin_count (pages s1), free_list s1,
            rs2, map page_id (pages s2), page_table s2 0))))
   = Returns ([Fresh (Some (0, 0)), Flag True], [0], Some 0, [0], True,
              [Frame (Some 0)], [1], [0],
              [Fresh (Some (1, 0))], [1], None)"
  by (simp add: replacer_eval pool_eval)

text \<open>
  C3. The claim: a frame that is bound, has pin count 0 and has been unpinned since it
  was bound is tracked by the replacer as eligible, in every reachable state. The code
  on a pool of size 1 at \<open>NewPage; UnpinPage(0); FetchPage(0); UnpinPage(0);
  FetchPage(1); FetchPage(2); FetchPage(3); UnpinPage(3)\<close>, every call returning
  success: frame 0 is bound to page 3 with pin count 0, by the last call, and the
  replacer holds it in \<^verbatim>\<open>recent_pinned\<close>; it is not eligible, and the replacer's \<^verbatim>\<open>cur_size\<close>
  is -1.
\<close>

theorem unpinned_bound_frame_not_eligible:
  "bind (run (BufferPoolManager_ctor 1 disk0)
           [NewPage, UnpinPage 0 False, FetchPage 0, UnpinPage 0 False,
            FetchPage 1, FetchPage 2, FetchPage 3, UnpinPage 3 False]) (\<lambda>(rs, s).
   Returns (rs, page_table s 3, map page_id (pages s), map pin_count (pages s),
            eligible (replacer s) 0, slot_eligible (replacer s) 0,
            recent_pinned (replacer s), cur_size (replacer s)))
   = Returns ([Fresh (Some (0, 0)), Flag True, Frame (Some 0), Flag True,
               Frame (Some 0), Frame (Some 0), Frame (Some 0), Flag True],
              Some 0, [3], [0], False, False, {0}, - 1)"
  by (simp add: replacer_eval pool_eval)

text \<open>
  C4. The claim: \<open>NewPage\<close> binds its page with the eviction steps of the miss path of
  \<open>FetchPage\<close>, writing a dirty victim back before the frame is rebound. The code on a
  pool of size 1 after \<open>NewPage; UnpinPage(0, true)\<close>, where frame 0 is dirty:
  \<open>NewPage\<close> rebinds frame 0 and its only call to the disk manager is the allocation;
  \<open>FetchPage(7)\<close> from the same state writes page 0 and then reads page 7.
\<close>

theorem NewPage_skips_write_back:
  "bind (run (BufferPoolManager_ctor 1 disk0) [NewPage, UnpinPage 0 True]) (\<lambda>(_, s).
   bind (NewPageImpl s) (\<lambda>(r1, s1).
   bind (FetchPageImpl s 7) (\<lambda>(r2, s2).
   Returns (map is_dirty (pages s), free_list s,
            r1, drop (length (trace (disk_manager s))) (trace (disk_manager s1)),
            r2, drop (length (trace (disk_manager s))) (trace (disk_manager s2))))))
   = Returns ([True], [0],
              Some (1, 0), [Allocate 1],
              Some 0, [Write 0 (replicate PAGE_SIZE 0), Read 7])"
  by (simp add: replacer_eval pool_eval)

text \<open>
  Whatever the state and wherever the victim comes from, the free list or the
  replacer, a \<open>NewPage\<close> that returns has left the bytes stored on disk as they were.
\<close>

lemma NewPageImpl_no_write:
  assumes "NewPageImpl s = Returns (r, s')"
  shows "contents (disk_manager s') = contents (disk_manager s)"
  using assms
  by (auto simp: NewPageImpl_def bind_def AllocatePage_def update_page_metadata_def Let_def
      split: outcome.splits option.splits if_splits prod.splits)

text \<open>
  On \<open>tracked_pool\<close> \<open>NewPage\<close> calls \<open>Victim\<close> twice, once in its first test and once
  in its second case. The first call takes frame 0 out of the replacer, the second one
  takes frame 1, and frame 1 is the one rebound: frame 0 stays bound to page 0 with
  pin count 0 and is no longer eligible, and the dirty page 1 is dropped with no write
  to disk.
\<close>

lemma NewPage_calls_Victim_twice:
  "bind (NewPageImpl tracked_pool) (\<lambda>(r, s).
   Returns (r, map page_id (pages s), map pin_count (pages s), page_table s 0, page_table s 1,
            eligible (replacer s) 0, slot_eligible (replacer s) 0, Size (replacer s),
            trace (disk_manager s)))
   = Returns (Some (2, 1), [0, 2], [0, 1], Some 0, None, False, False, 0, [Allocate 2])"
  by (simp add: replacer_eval pool_eval tracked_pool_def)

text \<open>
  C5. The claim: \<open>DeletePage\<close> on a resident page with pin count 0 removes the page's
  entry from the page table, returns the page's frame to the free list, resets the
  frame and has the disk manager deallocate the page id once. The code on a pool of
  size 2 after \<open>NewPage; NewPage; UnpinPage(1, false)\<close>, on \<open>DeletePage(1)\<close>, whose
  frame is 1: it returns true, the page table has an entry for page 1 again, bound to
  frame 0, the frame appended to the free list is 0, and the disk manager has received
  the two allocations and nothing else. Frame 1 is reset.
\<close>

theorem DeletePage_keeps_entry_skips_deallocate:
  "bind (run (BufferPoolManager_ctor 2 disk0) [NewPage, NewPage, UnpinPage 1 False])
     (\<lambda>(_, s).
   bind (DeletePageImpl s 1) (\<lambda>(r, s').
   Returns (page_table s 1, map pin_count (pages s), free_list s,
            r, page_table s' 1, free_list s', map page_id (pages s'),
            map pin_count (pages s'), trace (disk_manager s'))))
   = Returns (Some 1, [1, 0], [1],
              True, Some 0, [1, 0], [0, - 1], [1, 0], [Allocate 0, Allocate 1])"
  by (simp add: replacer_eval pool_eval)

end
